theory Spec2Isabelle
  imports Complex_Main
begin

section \<open>The flocculation model of AIDE/floc_model.py\<close>

text \<open>
  The module is a collection of closed-form formulas over Python floats. What the
  embedding follows exactly is the control flow of each call: the exceptions Python raises
  (a missing attribute, arithmetic on \<open>None\<close>, a float division by zero, the range
  error of \<open>**\<close>) and the order in which the operands are evaluated. For all
  functions but one the values themselves are carried as real numbers, with \<open>+\<close>,
  \<open>-\<close>, \<open>*\<close> and \<open>/\<close> exact: the theorems about them state which outcome a
  call has, how the results of the functions are composed from one another, and what the
  registry holds, and none of them states that two computed floats are equal. The
  exception is \<open>time_res_tube\<close>, which is modelled on binary64 values, each operation
  rounded to nearest, so that an equation between its computed results can be decided.

  The decorator \<open>u.wraps(ret, args, False)\<close> passes a plain number through
  unchanged and strips or attaches the SI unit of a quantity; on magnitudes in SI base
  units it is the identity, so each function is modelled on magnitudes and
  \<open>f(...).magnitude\<close> is the model's \<open>f ...\<close>.
\<close>

subsection \<open>Outcomes of a call\<close>

text \<open>
  The first four errors are the built-in exceptions the module's expressions can raise.
  The source defines no exception class of its own; \<open>UndefinedPrecipitateError\<close> and
  \<open>DomainError\<close> are the error kinds named by the specification, present here so
  that statements about them can be written. No definition below produces them.
\<close>

datatype error =
    AttributeError
  | TypeError
  | ZeroDivisionError
  | OverflowError
  | UndefinedPrecipitateError
  | DomainError

text \<open>
  A call raises, or returns a real number, or leaves the reals without raising:
  \<open>np.log10\<close> and \<open>np.log2\<close> of a non-positive float give \<open>-inf\<close> or
  \<open>nan\<close> with a warning, and a negative float raised to a non-integer power gives a
  Python complex number. \<open>NonReal\<close> stands for such a value; the model does not follow
  the computation past it.
\<close>

datatype 'a result = Raise error | Return 'a | NonReal

fun rbind :: "'a result \<Rightarrow> ('a \<Rightarrow> 'b result) \<Rightarrow> 'b result" where
  "rbind (Raise e) f = Raise e"
| "rbind (Return x) f = f x"
| "rbind NonReal f = NonReal"

text \<open>An attribute value that may be Python's \<open>None\<close>.\<close>

datatype pyval = PyNone | PyNum real

text \<open>Reading an attribute that was never assigned raises \<open>AttributeError\<close>.\<close>

definition attr :: "'a option \<Rightarrow> 'a result" where
  "attr a = (case a of None \<Rightarrow> Raise AttributeError | Some v \<Rightarrow> Return v)"

text \<open>Arithmetic on \<open>None\<close> raises \<open>TypeError\<close>.\<close>

definition num :: "pyval \<Rightarrow> real result" where
  "num v = (case v of PyNone \<Rightarrow> Raise TypeError | PyNum x \<Rightarrow> Return x)"

text \<open>Python's \<open>a / b\<close> on floats.\<close>

definition py_div :: "real \<Rightarrow> real \<Rightarrow> real result" where
  "py_div a b = (if b = 0 then Raise ZeroDivisionError else Return (a / b))"

text \<open>
  Python's \<open>x ** y\<close> on floats, in the order of CPython's \<open>float_pow\<close>: anything to
  the power 0 is 1; 0 to a negative power raises \<open>ZeroDivisionError\<close>; a negative base
  with a non-integer exponent gives a complex number; otherwise the C library's
  \<open>pow\<close> is called on the absolute value of the base, its range error on overflow is
  raised as \<open>OverflowError\<close>, and the sign is restored for an odd integer exponent. A
  binary64 result overflows when its magnitude is at least \<open>2\<^sup>1\<^sup>0\<^sup>2\<^sup>4 - 2\<^sup>9\<^sup>7\<^sup>0\<close>, the
  point from which rounding to nearest gives infinity. Underflow raises nothing.
\<close>

definition DBL_OVERFLOW :: real where
  "DBL_OVERFLOW = 2 ^ 1024 - 2 ^ 970"

definition py_pow :: "real \<Rightarrow> real \<Rightarrow> real result" where
  "py_pow x y =
     (if y = 0 then Return 1
      else if x = 0 then (if y < 0 then Raise ZeroDivisionError else Return 0)
      else if x < 0 \<and> y \<noteq> of_int \<lfloor>y\<rfloor> then NonReal
      else if DBL_OVERFLOW \<le> \<bar>x\<bar> powr y then Raise OverflowError
      else Return ((if x < 0 \<and> odd \<lfloor>y\<rfloor> then - 1 else 1) * (\<bar>x\<bar> powr y)))"


text \<open>
  \<open>np.log10\<close> raises nothing: of a non-positive float it gives \<open>-inf\<close> or \<open>nan\<close>
  with a warning.
\<close>

definition np_log10 :: "real \<Rightarrow> real result" where
  "np_log10 x = (if 0 < x then Return (log 10 x) else NonReal)"

subsection \<open>The class Chemical\<close>

text \<open>
  The four \<open>Precip...\<close> attributes other than the name are assigned by the constructor
  only when the precipitate is the chemical itself; otherwise they do not exist until
  \<open>define_Precip\<close> is called. \<open>None\<close> in a field of option type is the attribute
  that was never assigned.
\<close>

record Chemical =
  name :: string
  Diameter :: real
  Density :: real
  MolecWeight :: pyval
  AluminumMPM :: pyval
  Precip :: string
  PrecipName :: string
  PrecipDiameter :: "real option"
  PrecipDensity :: "real option"
  PrecipMolecWeight :: "pyval option"
  PrecipAluminumMPM :: "pyval option"

definition Chemical_init ::
  "string \<Rightarrow> real \<Rightarrow> real \<Rightarrow> pyval \<Rightarrow> string \<Rightarrow> pyval \<Rightarrow> Chemical" where
  "Chemical_init nm diameter density molecWeight Precipitate AlMPM =
     (if Precipitate = nm then
        \<lparr> name = nm, Diameter = diameter, Density = density,
          MolecWeight = molecWeight, AluminumMPM = AlMPM, Precip = Precipitate,
          PrecipName = nm, PrecipDiameter = Some diameter,
          PrecipDensity = Some density, PrecipMolecWeight = Some molecWeight,
          PrecipAluminumMPM = Some AlMPM \<rparr>
      else
        \<lparr> name = nm, Diameter = diameter, Density = density,
          MolecWeight = molecWeight, AluminumMPM = AlMPM, Precip = Precipitate,
          PrecipName = Precipitate, PrecipDiameter = None,
          PrecipDensity = None, PrecipMolecWeight = None,
          PrecipAluminumMPM = None \<rparr>)"

definition define_Precip ::
  "Chemical \<Rightarrow> real \<Rightarrow> real \<Rightarrow> pyval \<Rightarrow> pyval \<Rightarrow> Chemical" where
  "define_Precip self diameter density molecweight alumMPM =
     self \<lparr> PrecipDiameter := Some diameter, PrecipDensity := Some density,
            PrecipMolecWeight := Some molecweight,
            PrecipAluminumMPM := Some alumMPM \<rparr>"

subsection \<open>Chemical definitions and constants\<close>

definition PACl :: Chemical where
  "PACl = Chemical_init ''PACl'' (90 / 10 ^ 9) 1138 (PyNum 1.039) ''PACl'' (PyNum 13)"

definition Alum :: Chemical where
  "Alum = define_Precip
            (Chemical_init ''Alum'' (70 / 10 ^ 9) 2420 (PyNum 0.59921) ''AlOH3'' (PyNum 2))
            (70 / 10 ^ 9) 2420 (PyNum 0.078) (PyNum 1)"

definition HumicAcid :: Chemical where
  "HumicAcid =
     Chemical_init ''Humic Acid'' (72 / 10 ^ 9) 1780 PyNone ''Humic Acid'' PyNone"

definition DIAM_CLAY :: real where "DIAM_CLAY = 7 / 10 ^ 6"
definition RATIO_HEIGHT_DIAM :: real where "RATIO_HEIGHT_DIAM = 0.1"
definition DENS_CLAY :: real where "DENS_CLAY = 2650"
definition MOLEC_WEIGHT_ALUMINUM :: real where "MOLEC_WEIGHT_ALUMINUM = 0.027"


subsection \<open>Primary derived quantities\<close>

definition dens_alum_nanocluster :: "Chemical \<Rightarrow> real result" where
  "dens_alum_nanocluster coag =
     rbind (attr (PrecipDensity coag)) (\<lambda>d.
     rbind (attr (PrecipAluminumMPM coag)) (\<lambda>m.
     rbind (num m) (\<lambda>m'.
     rbind (attr (PrecipMolecWeight coag)) (\<lambda>w.
     rbind (num w) (\<lambda>w'.
     py_div (d * MOLEC_WEIGHT_ALUMINUM * m') w')))))"

definition conc_precipitate :: "real \<Rightarrow> Chemical \<Rightarrow> real result" where
  "conc_precipitate ConcAluminum coag =
     rbind (attr (PrecipMolecWeight coag)) (\<lambda>w.
     rbind (attr (PrecipAluminumMPM coag)) (\<lambda>m.
     rbind (num w) (\<lambda>w'.
     rbind (num m) (\<lambda>m'.
     rbind (py_div w' m') (\<lambda>q.
     Return ((ConcAluminum / MOLEC_WEIGHT_ALUMINUM) * q))))))"

definition conc_floc :: "real \<Rightarrow> real \<Rightarrow> Chemical \<Rightarrow> real result" where
  "conc_floc ConcAluminum concClay coag =
     rbind (conc_precipitate ConcAluminum coag) (\<lambda>c. Return (c + concClay))"



definition num_clay :: "real \<Rightarrow> real \<Rightarrow> real result" where
  "num_clay ConcClay DiamClay =
     rbind (py_pow DiamClay 3) (\<lambda>c.
     py_div ConcClay ((DENS_CLAY * pi * c) / 6))"


definition num_nanoclusters :: "real \<Rightarrow> Chemical \<Rightarrow> real result" where
  "num_nanoclusters ConcAluminum coag =
     rbind (dens_alum_nanocluster coag) (\<lambda>d.
     rbind (py_pow (Diameter coag) 3) (\<lambda>c.
     py_div ConcAluminum (d * pi * c)))"

definition frac_vol_floc_initial :: "real \<Rightarrow> real \<Rightarrow> Chemical \<Rightarrow> real result" where
  "frac_vol_floc_initial ConcAluminum ConcClay coag =
     rbind (conc_precipitate ConcAluminum coag) (\<lambda>c.
     rbind (attr (PrecipDensity coag)) (\<lambda>d.
     rbind (py_div c d) (\<lambda>q.
     Return (q + ConcClay / DENS_CLAY))))"

subsection \<open>The function p\<close>

definition p :: "real \<Rightarrow> real \<Rightarrow> real result" where
  "p C Cprime =
     rbind (py_div C Cprime) (\<lambda>q.
     rbind (np_log10 q) (\<lambda>l.
     Return (- l)))"

subsection \<open>Fractal functions\<close>

definition sep_dist_floc ::
  "real \<Rightarrow> real \<Rightarrow> Chemical \<Rightarrow> real \<Rightarrow> real \<Rightarrow> real \<Rightarrow> real result" where
  "sep_dist_floc ConcAluminum ConcClay coag DiamFractal DiamInit DiamTarget =
     rbind (frac_vol_floc_initial ConcAluminum ConcClay coag) (\<lambda>v.
     rbind (py_div pi (6 * v)) (\<lambda>a.
     rbind (py_pow a (1 / 3)) (\<lambda>b.
     rbind (py_div DiamTarget DiamInit) (\<lambda>q.
     rbind (py_pow q (DiamFractal / 3)) (\<lambda>t.
     Return (DiamInit * b * t))))))"

definition frac_vol_floc ::
  "real \<Rightarrow> real \<Rightarrow> Chemical \<Rightarrow> real \<Rightarrow> real \<Rightarrow> real \<Rightarrow> real result" where
  "frac_vol_floc ConcAluminum ConcClay coag DiamFractal DiamInit DiamTarget =
     rbind (frac_vol_floc_initial ConcAluminum ConcClay coag) (\<lambda>v.
     rbind (py_div DiamTarget DiamInit) (\<lambda>q.
     rbind (py_pow q (3 - DiamFractal)) (\<lambda>t.
     Return (v * t))))"

definition dens_floc_init :: "real \<Rightarrow> real \<Rightarrow> Chemical \<Rightarrow> real result" where
  "dens_floc_init ConcAluminum ConcClay coag =
     rbind (conc_floc ConcAluminum ConcClay coag) (\<lambda>c.
     rbind (frac_vol_floc_initial ConcAluminum ConcClay coag) (\<lambda>v.
     py_div c v))"

subsection \<open>Flocculation model\<close>

definition ratio_clay_sphere :: "real \<Rightarrow> real result" where
  "ratio_clay_sphere RatioHeightDiameter =
     rbind (py_div 2 (3 * RatioHeightDiameter)) (\<lambda>q.
     rbind (py_pow q (2 / 3)) (\<lambda>t.
     Return ((1 / 2 + RatioHeightDiameter) * t)))"

definition ratio_area_clay_total ::
  "real \<Rightarrow> real \<Rightarrow> real \<Rightarrow> real \<Rightarrow> real \<Rightarrow> real result" where
  "ratio_area_clay_total ConcClay DiamClay DiamTube DensityClay RatioHeightDiameter =
     rbind (ratio_clay_sphere RatioHeightDiameter) (\<lambda>s.
     rbind (py_div ConcClay DensityClay) (\<lambda>f.
     rbind (py_div (2 * DiamClay) (3 * DiamTube * s * f)) (\<lambda>x.
     py_div 1 (1 + x))))"

definition gamma_coag ::
  "real \<Rightarrow> real \<Rightarrow> Chemical \<Rightarrow> real \<Rightarrow> real \<Rightarrow> real \<Rightarrow> real \<Rightarrow> real result" where
  "gamma_coag ConcClay ConcAluminum coag DiamTube DiamClay DensityClay RatioHeightDiameter =
     rbind (frac_vol_floc_initial ConcAluminum 0 coag) (\<lambda>fa.
     rbind (frac_vol_floc_initial 0 ConcClay coag) (\<lambda>fc.
     rbind (py_div (- fa * DiamClay) (fc * Diameter coag)) (\<lambda>q.
     rbind (ratio_area_clay_total ConcClay DiamClay DiamTube DensityClay
              RatioHeightDiameter) (\<lambda>ra.
     rbind (ratio_clay_sphere RatioHeightDiameter) (\<lambda>rs.
     rbind (py_div ra rs) (\<lambda>r.
     Return (1 - exp (q * (1 / pi) * r))))))))"

definition gamma_humic_acid_to_coag ::
  "real \<Rightarrow> real \<Rightarrow> Chemical \<Rightarrow> Chemical \<Rightarrow> real result" where
  "gamma_humic_acid_to_coag ConcAl ConcNatOrgMat NatOrgMat coag =
     rbind (conc_precipitate ConcAl coag) (\<lambda>c.
     rbind (py_div ConcNatOrgMat c) (\<lambda>a.
     rbind (py_div (Density coag) (Density NatOrgMat)) (\<lambda>b.
     rbind (py_div (Diameter coag) (4 * Diameter NatOrgMat)) (\<lambda>d.
     Return (min (a * b * d) 1)))))"

definition pacl_term ::
  "real \<Rightarrow> real \<Rightarrow> real \<Rightarrow> real \<Rightarrow> real \<Rightarrow> real \<Rightarrow> Chemical \<Rightarrow> Chemical \<Rightarrow> real
    \<Rightarrow> real result" where
  "pacl_term DiamTube DiamClay DensityClay ConcClay ConcAl ConcNatOrgMat NatOrgMat coag
     RatioHeightDiameter =
     rbind (gamma_coag ConcClay ConcAl coag DiamTube DiamClay DensityClay
              RatioHeightDiameter) (\<lambda>g.
     rbind (gamma_humic_acid_to_coag ConcAl ConcNatOrgMat NatOrgMat coag) (\<lambda>h.
     Return (g * (1 - h))))"

definition alpha_pacl_clay ::
  "real \<Rightarrow> real \<Rightarrow> real \<Rightarrow> real \<Rightarrow> real \<Rightarrow> real \<Rightarrow> Chemical \<Rightarrow> Chemical \<Rightarrow> real
    \<Rightarrow> real result" where
  "alpha_pacl_clay DiamTube DiamClay DensityClay ConcClay ConcAl ConcNatOrgMat NatOrgMat
     coag RatioHeightDiameter =
     rbind (pacl_term DiamTube DiamClay DensityClay ConcClay ConcAl ConcNatOrgMat
              NatOrgMat coag RatioHeightDiameter) (\<lambda>PAClTerm.
     rbind (gamma_coag ConcClay ConcAl coag DiamTube DiamClay DensityClay
              RatioHeightDiameter) (\<lambda>g.
     Return (2 * (PAClTerm * (1 - g)))))"

definition alpha_pacl_pacl ::
  "real \<Rightarrow> real \<Rightarrow> real \<Rightarrow> real \<Rightarrow> real \<Rightarrow> real \<Rightarrow> Chemical \<Rightarrow> Chemical \<Rightarrow> real
    \<Rightarrow> real result" where
  "alpha_pacl_pacl DiamTube DiamClay DensityClay ConcClay ConcAl ConcNatOrgMat NatOrgMat
     coag RatioHeightDiameter =
     rbind (pacl_term DiamTube DiamClay DensityClay ConcClay ConcAl ConcNatOrgMat
              NatOrgMat coag RatioHeightDiameter) (\<lambda>PAClTerm.
     Return (PAClTerm ^ 2))"

definition alpha_pacl_nat_org_mat ::
  "real \<Rightarrow> real \<Rightarrow> real \<Rightarrow> real \<Rightarrow> real \<Rightarrow> real \<Rightarrow> Chemical \<Rightarrow> Chemical \<Rightarrow> real
    \<Rightarrow> real result" where
  "alpha_pacl_nat_org_mat DiamTube DiamClay DensityClay ConcClay ConcAl ConcNatOrgMat
     NatOrgMat coag RatioHeightDiameter =
     rbind (pacl_term DiamTube DiamClay DensityClay ConcClay ConcAl ConcNatOrgMat
              NatOrgMat coag RatioHeightDiameter) (\<lambda>PAClTerm.
     rbind (gamma_coag ConcClay ConcAl coag DiamTube DiamClay DensityClay
              RatioHeightDiameter) (\<lambda>g.
     rbind (gamma_humic_acid_to_coag ConcAl ConcNatOrgMat NatOrgMat coag) (\<lambda>h.
     Return (2 * PAClTerm * g * h))))"

definition alpha ::
  "real \<Rightarrow> real \<Rightarrow> real \<Rightarrow> real \<Rightarrow> real \<Rightarrow> real \<Rightarrow> Chemical \<Rightarrow> Chemical \<Rightarrow> real
    \<Rightarrow> real result" where
  "alpha DiamTube DiamClay DensityClay ConcClay ConcAl ConcNatOrgMat NatOrgMat coag
     RatioHeightDiameter =
     rbind (alpha_pacl_nat_org_mat DiamTube DiamClay DensityClay ConcClay ConcAl
              ConcNatOrgMat NatOrgMat coag RatioHeightDiameter) (\<lambda>a.
     rbind (alpha_pacl_pacl DiamTube DiamClay DensityClay ConcClay ConcAl
              ConcNatOrgMat NatOrgMat coag RatioHeightDiameter) (\<lambda>b.
     rbind (alpha_pacl_clay DiamTube DiamClay DensityClay ConcClay ConcAl
              ConcNatOrgMat NatOrgMat coag RatioHeightDiameter) (\<lambda>c.
     Return (a + b + c))))"


subsection \<open>Residence time in a tube, on binary64 values\<close>

text \<open>
  \<open>time_res_tube\<close> is the one function modelled with the rounding of the 64-bit
  format, because what is said about it is an equation between computed floats. A finite
  float is the real number it denotes; \<open>rnd\<close> is rounding to the nearest binary64
  value, ties to even, with the exponent unbounded above and gradual underflow below:
  \<open>pow2 (ulp_exponent x)\<close> is the spacing of the format at \<open>x\<close> (53 significant
  bits, least exponent \<open>-1022\<close>), and \<open>rne\<close> rounds to the nearest integer, ties
  to even.
\<close>

definition pow2 :: "int \<Rightarrow> real" where
  "pow2 k = (if 0 \<le> k then 2 ^ nat k else 1 / 2 ^ nat (- k))"

definition rne :: "real \<Rightarrow> int" where
  "rne y = (let f = \<lfloor>y\<rfloor> in
            if y - of_int f < 1 / 2 then f
            else if 1 / 2 < y - of_int f then f + 1
            else if even f then f else f + 1)"

definition ulp_exponent :: "real \<Rightarrow> int" where
  "ulp_exponent x = max \<lfloor>log 2 \<bar>x\<bar>\<rfloor> (- 1022) - 52"

definition rnd :: "real \<Rightarrow> real" where
  "rnd x = (if x = 0 then 0
            else of_int (rne (x / pow2 (ulp_exponent x))) * pow2 (ulp_exponent x))"

text \<open>
  A float is finite, an infinity or a NaN (the sign of a zero is not kept). \<open>to_flt\<close>
  delivers the result of an operation whose exact value is \<open>x\<close>: the rounded value, or
  an infinity when the rounded value is beyond the largest finite float.
\<close>

datatype flt = Fin real | PInf | NInf | NaN

definition to_flt :: "real \<Rightarrow> flt" where
  "to_flt x = (let r = rnd x in
               if 2 ^ 1024 \<le> r then PInf else if r \<le> - (2 ^ 1024) then NInf else Fin r)"

definition flt_sgn :: "flt \<Rightarrow> real" where
  "flt_sgn x = (case x of Fin a \<Rightarrow> sgn a | PInf \<Rightarrow> 1 | NInf \<Rightarrow> - 1 | NaN \<Rightarrow> 0)"

definition flt_inf :: "real \<Rightarrow> flt" where
  "flt_inf s = (if s = 0 then NaN else if 0 < s then PInf else NInf)"

text \<open>Python's float \<open>*\<close>: it never raises; an overflow gives an infinity.\<close>

definition flt_mul :: "flt \<Rightarrow> flt \<Rightarrow> flt" where
  "flt_mul x y =
     (case (x, y) of
        (NaN, _) \<Rightarrow> NaN
      | (_, NaN) \<Rightarrow> NaN
      | (Fin a, Fin b) \<Rightarrow> to_flt (a * b)
      | _ \<Rightarrow> flt_inf (flt_sgn x * flt_sgn y))"

text \<open>Python's float \<open>/\<close>: a zero divisor raises, whatever the dividend.\<close>

definition flt_div :: "flt \<Rightarrow> flt \<Rightarrow> flt result" where
  "flt_div x y =
     (if y = Fin 0 then Raise ZeroDivisionError
      else Return
        (case (x, y) of
           (NaN, _) \<Rightarrow> NaN
         | (_, NaN) \<Rightarrow> NaN
         | (Fin a, Fin b) \<Rightarrow> to_flt (a / b)
         | (Fin a, _) \<Rightarrow> Fin 0
         | (_, Fin b) \<Rightarrow> flt_inf (flt_sgn x * sgn b)
         | _ \<Rightarrow> NaN))"

text \<open>
  Python's float \<open>**\<close> on finite operands, in the order of CPython's \<open>float_pow\<close>:
  a zero exponent gives 1; a zero base raises for a negative exponent and gives 0
  otherwise; a negative base with a non-integer exponent gives a complex number; a base
  of magnitude 1 gives 1 up to sign without a call of the C library; otherwise the C
  library's \<open>pow\<close> is called on the magnitude of the base, and its overflow raises
  \<open>OverflowError\<close>. The C library's function is the parameter \<open>c_pow\<close>, since its
  rounding is not fixed by the language; a value of \<open>2 ^ 1024\<close> or more stands for
  its overflow.
\<close>

definition flt_pow :: "(real \<Rightarrow> real \<Rightarrow> real) \<Rightarrow> real \<Rightarrow> real \<Rightarrow> flt result" where
  "flt_pow c_pow x y =
     (if y = 0 then Return (Fin 1)
      else if x = 0 then (if y < 0 then Raise ZeroDivisionError else Return (Fin 0))
      else if x < 0 \<and> y \<noteq> of_int \<lfloor>y\<rfloor> then NonReal
      else if \<bar>x\<bar> = 1 then Return (Fin (if x < 0 \<and> odd \<lfloor>y\<rfloor> then - 1 else 1))
      else if 2 ^ 1024 \<le> c_pow \<bar>x\<bar> y then Raise OverflowError
      else Return (Fin ((if x < 0 \<and> odd \<lfloor>y\<rfloor> then - 1 else 1) * c_pow \<bar>x\<bar> y)))"

text \<open>The float \<open>np.pi\<close>, 3.141592653589793.\<close>

definition NP_PI :: real where
  "NP_PI = 884279719003555 / 2 ^ 48"

text \<open>
  \<open>LengthTube * np.pi * (IDTube**2 / 4) / FlowPlant\<close> on finite float arguments,
  evaluated from left to right: the product with \<open>np.pi\<close>, the square, its quarter,
  the product of the two, the quotient.
\<close>

definition time_res_tube ::
  "(real \<Rightarrow> real \<Rightarrow> real) \<Rightarrow> real \<Rightarrow> real \<Rightarrow> real \<Rightarrow> flt result" where
  "time_res_tube c_pow IDTube LengthTube FlowPlant =
     (let a = flt_mul (Fin LengthTube) (Fin NP_PI) in
      rbind (flt_pow c_pow IDTube 2) (\<lambda>s.
      rbind (flt_div s (Fin 4)) (\<lambda>s4.
      flt_div (flt_mul a s4) (Fin FlowPlant))))"

text \<open>
  The same expression without rounding: the volume of the tube, with \<open>np.pi\<close> for
  \<open>\<pi>\<close>, divided by the flow.
\<close>

definition time_res_tube_exact :: "real \<Rightarrow> real \<Rightarrow> real \<Rightarrow> real" where
  "time_res_tube_exact IDTube LengthTube FlowPlant =
     LengthTube * NP_PI * (IDTube ^ 2 / 4) / FlowPlant"

subsection \<open>Predicates for the statements\<close>


text \<open>\<open>x\<close> is \<open>v\<close> up to the relative error \<open>eps\<close>.\<close>

definition close_to :: "real \<Rightarrow> real \<Rightarrow> real \<Rightarrow> bool" where
  "close_to eps x v \<longleftrightarrow> \<bar>x - v\<bar> \<le> eps * \<bar>v\<bar>"

text \<open>\<open>x\<close> is positive, between \<open>2\<^sup>-\<^sup>k\<close> and \<open>2\<^sup>k\<close>.\<close>

definition ranged :: "int \<Rightarrow> real \<Rightarrow> bool" where
  "ranged k x \<longleftrightarrow> pow2 (- k) \<le> x \<and> x \<le> pow2 k"

section \<open>Basic facts about the outcome operations\<close>

lemma py_div_Return: "b \<noteq> 0 \<Longrightarrow> py_div a b = Return (a / b)"
  by (simp add: py_div_def)

lemma py_pow_pos:
  "0 < x \<Longrightarrow> x powr y < DBL_OVERFLOW \<Longrightarrow> py_pow x y = Return (x powr y)"
  by (simp add: py_pow_def)

section \<open>Chemicals with a defined precipitate\<close>

lemma conc_precipitate_Return:
  assumes "PrecipMolecWeight coag = Some (PyNum w)"
    and "PrecipAluminumMPM coag = Some (PyNum m)" and "m \<noteq> 0"
  shows "conc_precipitate A coag = Return (A / MOLEC_WEIGHT_ALUMINUM * (w / m))"
  using assms by (simp add: conc_precipitate_def attr_def num_def py_div_def)

lemma frac_vol_floc_initial_Return:
  assumes "PrecipDensity coag = Some d" and "d \<noteq> 0"
    and "PrecipMolecWeight coag = Some (PyNum w)"
    and "PrecipAluminumMPM coag = Some (PyNum m)" and "m \<noteq> 0"
  shows "frac_vol_floc_initial A C coag =
           Return (A / MOLEC_WEIGHT_ALUMINUM * (w / m) / d + C / DENS_CLAY)"
  using assms
  by (simp add: frac_vol_floc_initial_def conc_precipitate_Return [OF assms(3,4,5)]
        attr_def py_div_def)


section \<open>Collision efficiency\<close>

lemma exp_half_less_two: "exp (1 / 2 :: real) < 2"
proof -
  have "exp (1 / 2 :: real) * exp (1 / 2) = exp 1"
    by (simp add: exp_add [symmetric])
  then have "(exp (1 / 2 :: real))\<^sup>2 \<le> 3"
    using exp_le by (simp add: power2_eq_square)
  then have "(exp (1 / 2 :: real))\<^sup>2 < 2\<^sup>2"
    by simp
  then show ?thesis
    by (rule power2_less_imp_less) simp
qed

lemma one_minus_exp_less_half:
  fixes k :: real
  assumes "0 < k" and "k \<le> 1 / 2"
  shows "0 < 1 - exp (- k)" and "1 - exp (- k) < 1 / 2"
proof -
  show "0 < 1 - exp (- k)"
    using assms by simp
  have "exp (- (1 / 2 :: real)) = 1 / exp (1 / 2)"
    by (simp add: exp_minus inverse_eq_divide)
  moreover have "1 / 2 < 1 / exp (1 / 2 :: real)"
    using exp_half_less_two by (simp add: field_simps)
  moreover have "exp (- (1 / 2)) \<le> exp (- k)"
    using assms by simp
  ultimately have "1 / 2 < exp (- k)"
    by linarith
  then show "1 - exp (- k) < 1 / 2"
    by linarith
qed

lemma gamma_coag_low_dose:
  "\<exists>g. gamma_coag (1 / 10) (1 / 1000) PACl (1 / 100) DIAM_CLAY DENS_CLAY RATIO_HEIGHT_DIAM
         = Return g \<and> 0 < g \<and> g < 1 / 2"
proof -
  define rs :: real where
    "rs = (1 / 2 + RATIO_HEIGHT_DIAM) * (2 / (3 * RATIO_HEIGHT_DIAM)) powr (2 / 3)"
  have rs_pos: "0 < rs"
    unfolding rs_def RATIO_HEIGHT_DIAM_def by (intro mult_pos_pos) simp_all
  have "(20 / 3 :: real) powr (2 / 3) \<le> (20 / 3) powr 1"
    by (intro powr_mono) simp_all
  also have "\<dots> < DBL_OVERFLOW"
    by (simp add: DBL_OVERFLOW_def)
  finally have "(2 / (3 * RATIO_HEIGHT_DIAM)) powr (2 / 3) < DBL_OVERFLOW"
    by (simp add: RATIO_HEIGHT_DIAM_def)
  then have pw: "py_pow (2 / (3 * RATIO_HEIGHT_DIAM)) (2 / 3)
                   = Return ((2 / (3 * RATIO_HEIGHT_DIAM)) powr (2 / 3))"
    by (intro py_pow_pos) (simp_all add: RATIO_HEIGHT_DIAM_def)
  have dq: "py_div 2 (3 * RATIO_HEIGHT_DIAM) = Return (2 / (3 * RATIO_HEIGHT_DIAM))"
    by (intro py_div_Return) (simp add: RATIO_HEIGHT_DIAM_def)
  have rs: "ratio_clay_sphere RATIO_HEIGHT_DIAM = Return rs"
    by (simp only: ratio_clay_sphere_def dq pw rbind.simps rs_def)
  define x :: real where "x = 2 * DIAM_CLAY / (3 * (1 / 100) * rs * ((1 / 10) / DENS_CLAY))"
  have x_pos: "0 < x"
    using rs_pos by (simp add: x_def DIAM_CLAY_def DENS_CLAY_def)
  have ra: "ratio_area_clay_total (1 / 10) DIAM_CLAY (1 / 100) DENS_CLAY RATIO_HEIGHT_DIAM
              = Return (1 / (1 + x))"
    using rs_pos x_pos
    by (simp add: ratio_area_clay_total_def rs py_div_def x_def DENS_CLAY_def)
  define fa :: real where
    "fa = (1 / 1000) / MOLEC_WEIGHT_ALUMINUM * (1.039 / 13) / 1138 + 0 / DENS_CLAY"
  define fc :: real where
    "fc = 0 / MOLEC_WEIGHT_ALUMINUM * (1.039 / 13) / 1138 + (1 / 10) / DENS_CLAY"
  have fva: "frac_vol_floc_initial (1 / 1000) 0 PACl = Return fa"
    unfolding fa_def
    by (rule frac_vol_floc_initial_Return) (simp_all add: PACl_def Chemical_init_def)
  have fvc: "frac_vol_floc_initial 0 (1 / 10) PACl = Return fc"
    unfolding fc_def
    by (rule frac_vol_floc_initial_Return) (simp_all add: PACl_def Chemical_init_def)
  define Q :: real where "Q = fa * DIAM_CLAY / (fc * Diameter PACl)"
  have Q_val: "0 < Q" "Q \<le> 6"
    by (simp_all add: Q_def fa_def fc_def DIAM_CLAY_def DENS_CLAY_def MOLEC_WEIGHT_ALUMINUM_def
          PACl_def Chemical_init_def)
  have d1: "py_div (- fa * DIAM_CLAY) (fc * Diameter PACl) = Return (- Q)"
    by (simp add: py_div_def Q_def fc_def DENS_CLAY_def PACl_def Chemical_init_def)
  have d2: "py_div (1 / (1 + x)) rs = Return (1 / (1 + x) / rs)"
    using rs_pos by (intro py_div_Return) simp
  define k where "k = Q * (1 / pi) * (1 / (1 + x) / rs)"
  have g: "gamma_coag (1 / 10) (1 / 1000) PACl (1 / 100) DIAM_CLAY DENS_CLAY RATIO_HEIGHT_DIAM
             = Return (1 - exp (- Q * (1 / pi) * (1 / (1 + x) / rs)))"
    by (simp only: gamma_coag_def fva fvc d1 ra rs d2 rbind.simps)
  have "rs * x = 371 / 30"
    using rs_pos by (simp add: x_def DIAM_CLAY_def DENS_CLAY_def)
  then have "1 / (1 + x) / rs = 1 / (rs + 371 / 30)"
    using rs_pos x_pos by (simp add: field_simps)
  moreover have "1 / (rs + 371 / 30) \<le> 1 / (371 / 30)" and "0 < 1 / (rs + 371 / 30)"
    using rs_pos by (simp_all add: field_simps)
  ultimately have r_bounds: "0 < 1 / (1 + x) / rs" "1 / (1 + x) / rs \<le> 30 / 371"
    by simp_all
  have pi_bounds: "0 < 1 / pi" "1 / pi \<le> 1 / 2"
    using pi_ge_two pi_gt_zero by (simp_all add: field_simps)
  have k_pos: "0 < k"
    unfolding k_def using Q_val(1) pi_bounds(1) r_bounds(1) by (intro mult_pos_pos)
  have nn_pi: "0 \<le> 1 / pi"
    using pi_bounds(1) by (rule less_imp_le)
  have nn_r: "0 \<le> 1 / (1 + x) / rs"
    using r_bounds(1) by (rule less_imp_le)
  have "Q * (1 / pi) \<le> 6 * (1 / 2)"
    using Q_val(2) pi_bounds(2) _ nn_pi by (rule mult_mono) simp
  then have "Q * (1 / pi) * (1 / (1 + x) / rs) \<le> (6 * (1 / 2)) * (30 / 371)"
    using r_bounds(2) _ nn_r by (rule mult_mono) simp
  then have k_le: "k \<le> 1 / 2"
    by (simp add: k_def)
  have "- Q * (1 / pi) * (1 / (1 + x) / rs) = - k"
    by (simp add: k_def)
  with g have "gamma_coag (1 / 10) (1 / 1000) PACl (1 / 100) DIAM_CLAY DENS_CLAY
                 RATIO_HEIGHT_DIAM = Return (1 - exp (- k))"
    by simp
  with one_minus_exp_less_half [OF k_pos k_le] show ?thesis
    by blast
qed

lemma alpha_parts:
  assumes G: "gamma_coag ConcClay ConcAl coag DiamTube DiamClay DensityClay r = Return g"
    and H: "gamma_humic_acid_to_coag ConcAl ConcNatOrgMat NatOrgMat coag = Return h"
  shows "pacl_term DiamTube DiamClay DensityClay ConcClay ConcAl ConcNatOrgMat NatOrgMat
           coag r = Return (g * (1 - h))"
    and "alpha_pacl_clay DiamTube DiamClay DensityClay ConcClay ConcAl ConcNatOrgMat
           NatOrgMat coag r = Return (2 * (g * (1 - h) * (1 - g)))"
    and "alpha_pacl_pacl DiamTube DiamClay DensityClay ConcClay ConcAl ConcNatOrgMat
           NatOrgMat coag r = Return ((g * (1 - h)) ^ 2)"
    and "alpha_pacl_nat_org_mat DiamTube DiamClay DensityClay ConcClay ConcAl ConcNatOrgMat
           NatOrgMat coag r = Return (2 * (g * (1 - h)) * g * h)"
proof -
  show T: "pacl_term DiamTube DiamClay DensityClay ConcClay ConcAl ConcNatOrgMat NatOrgMat
           coag r = Return (g * (1 - h))"
    by (simp only: pacl_term_def G H rbind.simps)
  show "alpha_pacl_clay DiamTube DiamClay DensityClay ConcClay ConcAl ConcNatOrgMat
           NatOrgMat coag r = Return (2 * (g * (1 - h) * (1 - g)))"
    by (simp only: alpha_pacl_clay_def T G rbind.simps)
  show "alpha_pacl_pacl DiamTube DiamClay DensityClay ConcClay ConcAl ConcNatOrgMat
           NatOrgMat coag r = Return ((g * (1 - h)) ^ 2)"
    by (simp only: alpha_pacl_pacl_def T rbind.simps)
  show "alpha_pacl_nat_org_mat DiamTube DiamClay DensityClay ConcClay ConcAl ConcNatOrgMat
           NatOrgMat coag r = Return (2 * (g * (1 - h)) * g * h)"
    by (simp only: alpha_pacl_nat_org_mat_def T G H rbind.simps)
qed

lemma gamma_humic_low_dose:
  "gamma_humic_acid_to_coag (1 / 1000) (1 / 1000) HumicAcid PACl
     = Return (199719 / 2959072)"
  by (simp add: gamma_humic_acid_to_coag_def conc_precipitate_def attr_def num_def
        py_div_def PACl_def HumicAcid_def Chemical_init_def MOLEC_WEIGHT_ALUMINUM_def)

text \<open>
  Against C3 as stated: at clay 0.1, aluminum 0.001 and organic matter 0.001 (all in
  kilograms per cubic metre), a 1 cm tube, the module's clay constants, PACl and humic
  acid, no value of an uncovered fraction \<open>U\<close> makes the three coefficients equal to
  \<open>2 * U * coverage\<close>, \<open>U\<^sup>2\<close> and \<open>2 * U * coverage * organicFraction\<close>.
\<close>

theorem alpha_sub_coefficients_counterexample:
  "\<not> (\<exists>U g h.
        gamma_coag (1 / 10) (1 / 1000) PACl (1 / 100) DIAM_CLAY DENS_CLAY RATIO_HEIGHT_DIAM
          = Return g
      \<and> gamma_humic_acid_to_coag (1 / 1000) (1 / 1000) HumicAcid PACl = Return h
      \<and> alpha_pacl_clay (1 / 100) DIAM_CLAY DENS_CLAY (1 / 10) (1 / 1000) (1 / 1000)
          HumicAcid PACl RATIO_HEIGHT_DIAM = Return (2 * U * g)
      \<and> alpha_pacl_pacl (1 / 100) DIAM_CLAY DENS_CLAY (1 / 10) (1 / 1000) (1 / 1000)
          HumicAcid PACl RATIO_HEIGHT_DIAM = Return (U ^ 2)
      \<and> alpha_pacl_nat_org_mat (1 / 100) DIAM_CLAY DENS_CLAY (1 / 10) (1 / 1000) (1 / 1000)
          HumicAcid PACl RATIO_HEIGHT_DIAM = Return (2 * U * g * h))"
proof
  assume "\<exists>U g h.
        gamma_coag (1 / 10) (1 / 1000) PACl (1 / 100) DIAM_CLAY DENS_CLAY RATIO_HEIGHT_DIAM
          = Return g
      \<and> gamma_humic_acid_to_coag (1 / 1000) (1 / 1000) HumicAcid PACl = Return h
      \<and> alpha_pacl_clay (1 / 100) DIAM_CLAY DENS_CLAY (1 / 10) (1 / 1000) (1 / 1000)
          HumicAcid PACl RATIO_HEIGHT_DIAM = Return (2 * U * g)
      \<and> alpha_pacl_pacl (1 / 100) DIAM_CLAY DENS_CLAY (1 / 10) (1 / 1000) (1 / 1000)
          HumicAcid PACl RATIO_HEIGHT_DIAM = Return (U ^ 2)
      \<and> alpha_pacl_nat_org_mat (1 / 100) DIAM_CLAY DENS_CLAY (1 / 10) (1 / 1000) (1 / 1000)
          HumicAcid PACl RATIO_HEIGHT_DIAM = Return (2 * U * g * h)"
  then obtain U g h where
      G: "gamma_coag (1 / 10) (1 / 1000) PACl (1 / 100) DIAM_CLAY DENS_CLAY RATIO_HEIGHT_DIAM
            = Return g"
      and H: "gamma_humic_acid_to_coag (1 / 1000) (1 / 1000) HumicAcid PACl = Return h"
      and clay: "alpha_pacl_clay (1 / 100) DIAM_CLAY DENS_CLAY (1 / 10) (1 / 1000) (1 / 1000)
          HumicAcid PACl RATIO_HEIGHT_DIAM = Return (2 * U * g)"
      and pacl: "alpha_pacl_pacl (1 / 100) DIAM_CLAY DENS_CLAY (1 / 10) (1 / 1000) (1 / 1000)
          HumicAcid PACl RATIO_HEIGHT_DIAM = Return (U ^ 2)"
    by blast
  from gamma_coag_low_dose G have g: "0 < g" "g < 1 / 2"
    by auto
  from gamma_humic_low_dose H have h: "0 < h" "h < 1"
    by simp_all
  define T where "T = g * (1 - h)"
  have T_pos: "0 < T"
    using g h by (simp add: T_def)
  have "Return (2 * U * g) = Return (2 * (g * (1 - h) * (1 - g)))"
    using clay [symmetric] alpha_parts(2) [OF G H] by (rule trans)
  then have "2 * U * g = 2 * (g * (1 - h) * (1 - g))"
    by (simp only: result.inject)
  then have "(U - (1 - h) * (1 - g)) * g = 0"
    by (simp add: algebra_simps)
  then have U: "U = (1 - h) * (1 - g)"
    using g by simp
  then have U_pos: "0 < U"
    using g h by simp
  have "Return (U ^ 2) = Return ((g * (1 - h)) ^ 2)"
    using pacl [symmetric] alpha_parts(3) [OF G H] by (rule trans)
  then have "U ^ 2 = T ^ 2"
    by (simp only: result.inject T_def)
  then have "U = T"
    using U_pos T_pos by (simp add: power2_eq_iff_nonneg)
  then have "(1 - h) * (1 - g) = (1 - h) * g"
    using U by (simp add: T_def mult.commute)
  then have "1 - g = g"
    using h by simp
  then show False
    using g by simp
qed

text \<open>
  C3, amended. Whenever \<open>gamma_coag\<close> returns the coverage \<open>g\<close> and
  \<open>gamma_humic_acid_to_coag\<close> returns the organic fraction \<open>h\<close>, and with
  \<open>T = g * (1 - h)\<close> (the value of \<open>_pacl_term\<close>), the coagulant-clay coefficient is
  \<open>2 * T * (1 - g)\<close>, the coagulant-coagulant coefficient is \<open>T\<^sup>2\<close>, the
  coagulant-organic-matter coefficient is \<open>2 * T * g * h\<close>, and \<open>alpha\<close> for the same
  inputs is the sum of the three.
\<close>

theorem alpha_sum_of_three_sub_coefficients:
  assumes "gamma_coag ConcClay ConcAl coag DiamTube DiamClay DensityClay r = Return g"
    and "gamma_humic_acid_to_coag ConcAl ConcNatOrgMat NatOrgMat coag = Return h"
  shows "alpha_pacl_clay DiamTube DiamClay DensityClay ConcClay ConcAl ConcNatOrgMat
           NatOrgMat coag r = Return (2 * (g * (1 - h)) * (1 - g))
       \<and> alpha_pacl_pacl DiamTube DiamClay DensityClay ConcClay ConcAl ConcNatOrgMat
           NatOrgMat coag r = Return ((g * (1 - h)) ^ 2)
       \<and> alpha_pacl_nat_org_mat DiamTube DiamClay DensityClay ConcClay ConcAl
           ConcNatOrgMat NatOrgMat coag r = Return (2 * (g * (1 - h)) * g * h)
       \<and> alpha DiamTube DiamClay DensityClay ConcClay ConcAl ConcNatOrgMat NatOrgMat
           coag r = Return (2 * (g * (1 - h)) * g * h + (g * (1 - h)) ^ 2
                            + 2 * (g * (1 - h)) * (1 - g))"
proof -
  note parts = alpha_parts [OF assms]
  have "alpha DiamTube DiamClay DensityClay ConcClay ConcAl ConcNatOrgMat NatOrgMat
           coag r = Return (2 * (g * (1 - h)) * g * h + (g * (1 - h)) ^ 2
                            + 2 * (g * (1 - h) * (1 - g)))"
    by (simp only: alpha_def parts rbind.simps)
  then show ?thesis
    by (simp add: parts mult.assoc)
qed

theorem alpha_sum_of_three_sub_coefficients_witness:
  "\<exists>g h.
      gamma_coag (1 / 10) (1 / 1000) PACl (1 / 100) DIAM_CLAY DENS_CLAY RATIO_HEIGHT_DIAM
        = Return g
    \<and> gamma_humic_acid_to_coag (1 / 1000) (1 / 1000) HumicAcid PACl = Return h
    \<and> alpha_pacl_clay (1 / 100) DIAM_CLAY DENS_CLAY (1 / 10) (1 / 1000) (1 / 1000)
          HumicAcid PACl RATIO_HEIGHT_DIAM = Return (2 * (g * (1 - h)) * (1 - g))
    \<and> alpha (1 / 100) DIAM_CLAY DENS_CLAY (1 / 10) (1 / 1000) (1 / 1000)
          HumicAcid PACl RATIO_HEIGHT_DIAM
        = Return (2 * (g * (1 - h)) * g * h + (g * (1 - h)) ^ 2
                  + 2 * (g * (1 - h)) * (1 - g))"
proof -
  from gamma_coag_low_dose obtain g where
      G: "gamma_coag (1 / 10) (1 / 1000) PACl (1 / 100) DIAM_CLAY DENS_CLAY
            RATIO_HEIGHT_DIAM = Return g"
    by blast
  from gamma_humic_low_dose obtain h where
      H: "gamma_humic_acid_to_coag (1 / 1000) (1 / 1000) HumicAcid PACl = Return h"
    by (rule that)
  from alpha_sum_of_three_sub_coefficients [OF G H] G H show ?thesis
    by blast
qed

section \<open>The registry entry Alum\<close>

text \<open>
  Against C8 as stated: after \<open>define_Precip\<close> the precipitate of \<open>Alum\<close> does not
  differ from \<open>Alum\<close> in each of density, molecular weight and aluminum content; the
  density of both is 2420.
\<close>

theorem Alum_precipitate_density_counterexample:
  "\<not> (PrecipDensity Alum \<noteq> Some (Density Alum)
      \<and> PrecipMolecWeight Alum \<noteq> Some (MolecWeight Alum)
      \<and> PrecipAluminumMPM Alum \<noteq> Some (AluminumMPM Alum))"
  by (simp add: Alum_def define_Precip_def Chemical_init_def)

text \<open>
  C8, amended. After the precipitate-definition step the registry's \<open>Alum\<close> has a
  precipitate of a distinct name (\<open>AlOH3\<close>) whose molecular weight (0.078 against
  0.59921) and aluminum content (1 against 2) differ from the parent's, while its density
  (2420) and its diameter are equal to the parent's.
\<close>

theorem Alum_precipitate_attributes:
  "PrecipName Alum = ''AlOH3'' \<and> name Alum = ''Alum'' \<and> PrecipName Alum \<noteq> name Alum
   \<and> PrecipMolecWeight Alum = Some (PyNum 0.078) \<and> MolecWeight Alum = PyNum 0.59921
   \<and> PrecipMolecWeight Alum \<noteq> Some (MolecWeight Alum)
   \<and> PrecipAluminumMPM Alum = Some (PyNum 1) \<and> AluminumMPM Alum = PyNum 2
   \<and> PrecipAluminumMPM Alum \<noteq> Some (AluminumMPM Alum)
   \<and> PrecipDensity Alum = Some 2420 \<and> Density Alum = 2420
   \<and> PrecipDiameter Alum = Some (Diameter Alum)"
  by (simp add: Alum_def define_Precip_def Chemical_init_def)

section \<open>A precipitate that was declared but never defined\<close>

lemma undefined_precipitate_fields:
  assumes "Precipitate \<noteq> nm"
  shows "PrecipDensity (Chemical_init nm diameter density mw Precipitate al) = None"
    and "PrecipMolecWeight (Chemical_init nm diameter density mw Precipitate al) = None"
    and "PrecipAluminumMPM (Chemical_init nm diameter density mw Precipitate al) = None"
  using assms by (simp_all add: Chemical_init_def)

lemma conc_precipitate_undefined:
  "PrecipMolecWeight coag = None \<Longrightarrow> conc_precipitate A coag = Raise AttributeError"
  by (simp add: conc_precipitate_def attr_def)

lemma dens_alum_nanocluster_undefined:
  "PrecipDensity coag = None \<Longrightarrow> dens_alum_nanocluster coag = Raise AttributeError"
  by (simp add: dens_alum_nanocluster_def attr_def)

text \<open>
  Against C2 as stated: on \<open>Alum\<close> as constructed, before \<open>define_Precip\<close>,
  \<open>dens_alum_nanocluster\<close> raises Python's \<open>AttributeError\<close> (the attribute
  \<open>PrecipDensity\<close> does not exist), not an \<open>UndefinedPrecipitateError\<close>.
\<close>

theorem undefined_precipitate_counterexample:
  "dens_alum_nanocluster
     (Chemical_init ''Alum'' (70 / 10 ^ 9) 2420 (PyNum 0.59921) ''AlOH3'' (PyNum 2))
     = Raise AttributeError
   \<and> dens_alum_nanocluster
     (Chemical_init ''Alum'' (70 / 10 ^ 9) 2420 (PyNum 0.59921) ''AlOH3'' (PyNum 2))
     \<noteq> Raise UndefinedPrecipitateError"
  by (simp add: dens_alum_nanocluster_undefined undefined_precipitate_fields)

text \<open>
  C2, amended. On a chemical constructed with a precipitate name distinct from its own
  name, and on which \<open>define_Precip\<close> was not called, the precipitate-dependent
  computations raise \<open>AttributeError\<close>: \<open>dens_alum_nanocluster\<close>,
  \<open>conc_precipitate\<close> and the functions whose first step is one of them
  (\<open>conc_floc\<close>, \<open>num_nanoclusters\<close>, \<open>frac_vol_floc_initial\<close>,
  \<open>dens_floc_init\<close>, \<open>sep_dist_floc\<close>, \<open>frac_vol_floc\<close>, \<open>gamma_coag\<close>,
  \<open>gamma_humic_acid_to_coag\<close>), whatever their other arguments.
\<close>

theorem undefined_precipitate_raises_AttributeError:
  assumes "Precipitate \<noteq> nm"
    and "coag = Chemical_init nm diameter density mw Precipitate al"
  shows "dens_alum_nanocluster coag = Raise AttributeError
       \<and> conc_precipitate ConcAl coag = Raise AttributeError
       \<and> conc_floc ConcAl ConcClay coag = Raise AttributeError
       \<and> num_nanoclusters ConcAl coag = Raise AttributeError
       \<and> frac_vol_floc_initial ConcAl ConcClay coag = Raise AttributeError
       \<and> dens_floc_init ConcAl ConcClay coag = Raise AttributeError
       \<and> sep_dist_floc ConcAl ConcClay coag fd d0 dt = Raise AttributeError
       \<and> frac_vol_floc ConcAl ConcClay coag fd d0 dt = Raise AttributeError
       \<and> gamma_coag ConcClay ConcAl coag DiamTube DiamClay DensityClay r
           = Raise AttributeError
       \<and> gamma_humic_acid_to_coag ConcAl ConcNatOrgMat NatOrgMat coag
           = Raise AttributeError"
proof -
  have d: "PrecipDensity coag = None" and w: "PrecipMolecWeight coag = None"
    using assms by (simp_all add: undefined_precipitate_fields)
  have cp: "conc_precipitate A coag = Raise AttributeError" for A
    using w by (rule conc_precipitate_undefined)
  have da: "dens_alum_nanocluster coag = Raise AttributeError"
    using d by (rule dens_alum_nanocluster_undefined)
  have fv: "frac_vol_floc_initial A C coag = Raise AttributeError" for A C
    by (simp add: frac_vol_floc_initial_def cp)
  show ?thesis
    by (simp add: da cp fv conc_floc_def num_nanoclusters_def dens_floc_init_def
          sep_dist_floc_def frac_vol_floc_def gamma_coag_def gamma_humic_acid_to_coag_def)
qed

theorem undefined_precipitate_raises_AttributeError_witness:
  "dens_alum_nanocluster
     (Chemical_init ''Alum'' (70 / 10 ^ 9) 2420 (PyNum 0.59921) ''AlOH3'' (PyNum 2))
     = Raise AttributeError
   \<and> conc_precipitate (27 / 10 ^ 4)
     (Chemical_init ''Alum'' (70 / 10 ^ 9) 2420 (PyNum 0.59921) ''AlOH3'' (PyNum 2))
     = Raise AttributeError"
  using undefined_precipitate_raises_AttributeError
          [of "''AlOH3''" "''Alum''" _ "70 / 10 ^ 9" 2420 "PyNum 0.59921" "PyNum 2"
              "27 / 10 ^ 4"]
  by simp

section \<open>Inputs outside the physical domain\<close>

























section \<open>Residence time in a tube\<close>

subsection \<open>Rounding\<close>

lemma pow2_powr: "pow2 k = 2 powr of_int k"
  by (simp add: pow2_def powr_int)

lemma pow2_pos: "0 < pow2 k"
  by (simp add: pow2_powr)

lemma pow2_add: "pow2 (a + b) = pow2 a * pow2 b"
  by (simp add: pow2_powr powr_add)

lemma rne_near: "\<bar>of_int (rne y) - y\<bar> \<le> 1 / 2"
proof -
  have "of_int \<lfloor>y\<rfloor> \<le> y" and "y < of_int \<lfloor>y\<rfloor> + 1"
    by linarith+
  then show ?thesis
    by (auto simp: rne_def Let_def)
qed

lemma rne_unique:
  assumes "\<bar>y - of_int n\<bar> < 1 / 2"
  shows "rne y = n"
proof -
  have "\<bar>of_int (rne y) - y\<bar> \<le> 1 / 2"
    by (rule rne_near)
  with assms have "\<bar>(of_int (rne y) :: real) - of_int n\<bar> < 1"
    by linarith
  then have "\<bar>rne y - n\<bar> < 1"
    by (metis of_int_abs of_int_diff of_int_less_1_iff)
  then show ?thesis
    by linarith
qed

lemma ulp_exponent_eq:
  assumes "pow2 e \<le> \<bar>x\<bar>" and "\<bar>x\<bar> < pow2 (e + 1)" and "- 1022 \<le> e"
  shows "ulp_exponent x = e - 52"
proof -
  have pos: "0 < \<bar>x\<bar>"
    using assms(1) pow2_pos [of e] by linarith
  have "\<lfloor>log 2 \<bar>x\<bar>\<rfloor> = e"
    using assms(1,2) pos by (simp add: floor_log_eq_powr_iff pow2_powr)
  then show ?thesis
    using assms(3) by (simp add: ulp_exponent_def)
qed

lemma rnd_eval:
  assumes "pow2 e \<le> \<bar>x\<bar>" and "\<bar>x\<bar> < pow2 (e + 1)" and "- 1022 \<le> e"
    and "\<bar>x / pow2 (e - 52) - of_int n\<bar> < 1 / 2"
  shows "rnd x = of_int n * pow2 (e - 52)"
proof -
  have "x \<noteq> 0"
    using assms(1) pow2_pos [of e] by auto
  moreover have "ulp_exponent x = e - 52"
    using assms(1,2,3) by (rule ulp_exponent_eq)
  moreover have "rne (x / pow2 (e - 52)) = n"
    using assms(4) by (rule rne_unique)
  ultimately show ?thesis
    by (simp add: rnd_def)
qed

lemma rnd_rel_error:
  assumes "pow2 (- 1022) \<le> \<bar>x\<bar>"
  shows "\<bar>rnd x - x\<bar> \<le> pow2 (- 53) * \<bar>x\<bar>"
proof -
  have pos: "0 < \<bar>x\<bar>"
    using assms pow2_pos [of "- 1022"] by linarith
  then have nz: "x \<noteq> 0"
    by auto
  define e where "e = \<lfloor>log 2 \<bar>x\<bar>\<rfloor>"
  have e_lo: "pow2 e \<le> \<bar>x\<bar>" and e_hi: "\<bar>x\<bar> < pow2 (e + 1)"
    using pos floor_log_eq_powr_iff [of "\<bar>x\<bar>" 2 e] by (simp_all add: e_def pow2_powr)
  have "- 1022 \<le> e"
  proof (rule ccontr)
    assume "\<not> - 1022 \<le> e"
    then have "e + 1 \<le> - 1022"
      by simp
    then have "pow2 (e + 1) \<le> pow2 (- 1022)"
      by (simp add: pow2_powr)
    with e_hi assms show False
      by linarith
  qed
  then have ue: "ulp_exponent x = e - 52"
    using e_lo e_hi by (intro ulp_exponent_eq)
  define s where "s = pow2 (e - 52)"
  have s_pos: "0 < s"
    by (simp add: s_def pow2_pos)
  have r: "rnd x = of_int (rne (x / s)) * s"
    using nz by (simp add: rnd_def ue s_def)
  have "rnd x - x = (of_int (rne (x / s)) - x / s) * s"
    using s_pos by (simp add: r field_simps)
  then have "\<bar>rnd x - x\<bar> = \<bar>of_int (rne (x / s)) - x / s\<bar> * s"
    using s_pos by (simp add: abs_mult)
  also have "\<dots> \<le> (1 / 2) * s"
    using rne_near [of "x / s"] s_pos by (intro mult_right_mono) simp_all
  also have "(1 / 2) * s = pow2 (- 53) * pow2 e"
  proof -
    have "pow2 (e - 52) = pow2 (- 52) * pow2 e"
      using pow2_add [of "- 52" e] by simp
    moreover have "(1 / 2) * pow2 (- 52) = pow2 (- 53)"
      by (simp add: pow2_def)
    ultimately show ?thesis
      by (simp add: s_def)
  qed
  also have "\<dots> \<le> pow2 (- 53) * \<bar>x\<bar>"
    using e_lo pow2_pos [of "- 53"] by (intro mult_left_mono) simp_all
  finally show ?thesis .
qed


lemma to_flt_eval:
  assumes "pow2 e \<le> \<bar>x\<bar>" and "\<bar>x\<bar> < pow2 (e + 1)" and "- 1022 \<le> e"
    and "\<bar>x / pow2 (e - 52) - of_int n\<bar> < 1 / 2"
    and "\<bar>of_int n * pow2 (e - 52)\<bar> < 2 ^ 1024"
  shows "to_flt x = Fin (of_int n * pow2 (e - 52))"
proof -
  have "rnd x = of_int n * pow2 (e - 52)"
    using assms(1-4) by (rule rnd_eval)
  with assms(5) show ?thesis
    by (simp add: to_flt_def Let_def abs_less_iff)
qed

lemma flt_mul_Fin: "flt_mul (Fin a) (Fin b) = to_flt (a * b)"
  by (simp add: flt_mul_def)

lemma flt_div_Fin: "b \<noteq> 0 \<Longrightarrow> flt_div (Fin a) (Fin b) = Return (to_flt (a / b))"
  by (simp add: flt_div_def)

lemma to_flt_quarter: "to_flt (1 / 4) = Fin (1 / 4)"
proof -
  have "to_flt (1 / 4) = Fin (of_int (2 ^ 52) * pow2 (- 2 - 52))"
    by (rule to_flt_eval) (simp_all add: pow2_def)
  also have "of_int (2 ^ 52) * pow2 (- 2 - 52) = (1 / 4 :: real)"
    by (simp add: pow2_def)
  finally show ?thesis .
qed

lemma time_res_tube_unit_diameter:
  "time_res_tube c_pow 1 L Q =
     flt_div (flt_mul (flt_mul (Fin L) (Fin NP_PI)) (Fin (1 / 4))) (Fin Q)"
proof -
  have p: "flt_pow c_pow 1 2 = Return (Fin 1)"
    by (simp add: flt_pow_def)
  have d: "flt_div (Fin 1) (Fin 4) = Return (Fin (1 / 4))"
    by (simp add: flt_div_Fin to_flt_quarter)
  show ?thesis
    by (simp only: time_res_tube_def Let_def p d rbind.simps)
qed

lemma mul_pi_1: "flt_mul (Fin 1) (Fin NP_PI) = Fin (NP_PI)"
proof -
  have "to_flt (1 * NP_PI) = Fin (of_int 7074237752028440 * pow2 (1 - 52))"
    by (rule to_flt_eval) (simp_all add: pow2_def NP_PI_def)
  also have "of_int 7074237752028440 * pow2 (1 - 52) = (NP_PI :: real)"
    by (simp add: pow2_def NP_PI_def)
  finally show ?thesis
    by (simp add: flt_mul_Fin)
qed

lemma mul_pi_5: "flt_mul (Fin 5) (Fin NP_PI) = Fin (5 * NP_PI)"
proof -
  have "to_flt (5 * NP_PI) = Fin (of_int 8842797190035550 * pow2 (3 - 52))"
    by (rule to_flt_eval) (simp_all add: pow2_def NP_PI_def)
  also have "of_int 8842797190035550 * pow2 (3 - 52) = (5 * NP_PI :: real)"
    by (simp add: pow2_def NP_PI_def)
  finally show ?thesis
    by (simp add: flt_mul_Fin)
qed

lemma mul_quarter_1: "flt_mul (Fin NP_PI) (Fin (1 / 4)) = Fin (NP_PI / 4)"
proof -
  have "to_flt (NP_PI * (1 / 4)) = Fin (of_int 7074237752028440 * pow2 (- 1 - 52))"
    by (rule to_flt_eval) (simp_all add: pow2_def NP_PI_def)
  also have "of_int 7074237752028440 * pow2 (- 1 - 52) = (NP_PI / 4 :: real)"
    by (simp add: pow2_def NP_PI_def)
  finally show ?thesis
    by (simp add: flt_mul_Fin)
qed

lemma mul_quarter_5: "flt_mul (Fin (5 * NP_PI)) (Fin (1 / 4)) = Fin (5 * NP_PI / 4)"
proof -
  have "to_flt (5 * NP_PI * (1 / 4)) = Fin (of_int 8842797190035550 * pow2 (1 - 52))"
    by (rule to_flt_eval) (simp_all add: pow2_def NP_PI_def)
  also have "of_int 8842797190035550 * pow2 (1 - 52) = (5 * NP_PI / 4 :: real)"
    by (simp add: pow2_def NP_PI_def)
  finally show ?thesis
    by (simp add: flt_mul_Fin)
qed

lemma div_3_1: "flt_div (Fin (NP_PI / 4)) (Fin 3) = Return (Fin (4716158501352293 / 2 ^ 54))"
proof -
  have "to_flt (NP_PI / 4 / 3) = Fin (of_int 4716158501352293 * pow2 (- 2 - 52))"
    by (rule to_flt_eval) (simp_all add: pow2_def NP_PI_def)
  also have "of_int 4716158501352293 * pow2 (- 2 - 52) = (4716158501352293 / 2 ^ 54 :: real)"
    by (simp add: pow2_def NP_PI_def)
  finally show ?thesis
    by (simp add: flt_div_Fin)
qed

lemma div_3_5: "flt_div (Fin (5 * NP_PI / 4)) (Fin 3) = Return (Fin (5895198126690367 / 2 ^ 52))"
proof -
  have "to_flt (5 * NP_PI / 4 / 3) = Fin (of_int 5895198126690367 * pow2 (0 - 52))"
    by (rule to_flt_eval) (simp_all add: pow2_def NP_PI_def)
  also have "of_int 5895198126690367 * pow2 (0 - 52) = (5895198126690367 / 2 ^ 52 :: real)"
    by (simp add: pow2_def NP_PI_def)
  finally show ?thesis
    by (simp add: flt_div_Fin)
qed

lemma mul_5_result: "flt_mul (Fin 5) (Fin (4716158501352293 / 2 ^ 54)) = Fin (5895198126690366 / 2 ^ 52)"
proof -
  have "to_flt (5 * (4716158501352293 / 2 ^ 54)) = Fin (of_int 5895198126690366 * pow2 (0 - 52))"
    by (rule to_flt_eval) (simp_all add: pow2_def NP_PI_def)
  also have "of_int 5895198126690366 * pow2 (0 - 52) = (5895198126690366 / 2 ^ 52 :: real)"
    by (simp add: pow2_def NP_PI_def)
  finally show ?thesis
    by (simp add: flt_mul_Fin)
qed

subsection \<open>Relative error\<close>

lemma pow2_mono: "a \<le> b \<Longrightarrow> pow2 a \<le> pow2 b"
  by (simp add: pow2_powr)

lemma pow2_minus: "pow2 (- k) = 1 / pow2 k"
  by (simp add: pow2_powr powr_minus_divide)

lemma ranged_pos: "ranged k x \<Longrightarrow> 0 < x"
  using pow2_pos [of "- k"] by (simp add: ranged_def)

lemma ranged_mono: "ranged j x \<Longrightarrow> j \<le> k \<Longrightarrow> ranged k x"
  using pow2_mono [of j k] pow2_mono [of "- k" "- j"] by (simp add: ranged_def)

lemma ranged_mult:
  assumes "ranged j x" and "ranged k y"
  shows "ranged (j + k) (x * y)"
proof -
  have "pow2 (- j) * pow2 (- k) \<le> x * y"
    using assms pow2_pos [of "- j"] pow2_pos [of "- k"]
    by (intro mult_mono) (simp_all add: ranged_def less_imp_le)
  moreover have "x * y \<le> pow2 j * pow2 k"
    using assms ranged_pos [OF assms(1)] ranged_pos [OF assms(2)] pow2_pos [of j]
    by (intro mult_mono) (simp_all add: ranged_def less_imp_le)
  ultimately show ?thesis
    using pow2_add [of "- j" "- k"] pow2_add [of j k] by (simp add: ranged_def)
qed

lemma ranged_inverse:
  assumes "ranged k y"
  shows "ranged k (1 / y)"
proof -
  have y: "0 < y" "pow2 (- k) \<le> y" "y \<le> pow2 k"
    using assms ranged_pos [OF assms] by (simp_all add: ranged_def)
  have "1 / pow2 k \<le> 1 / y"
    using y by (intro divide_left_mono mult_pos_pos pow2_pos) simp_all
  moreover have "1 / y \<le> 1 / pow2 (- k)"
    using y by (intro divide_left_mono mult_pos_pos pow2_pos) simp_all
  ultimately show ?thesis
    by (simp add: ranged_def pow2_minus)
qed

lemma ranged_divide:
  assumes "ranged j x" and "ranged k y"
  shows "ranged (j + k) (x / y)"
  using ranged_mult [OF assms(1) ranged_inverse [OF assms(2)]] by simp

lemma close_to_weaken: "close_to eps x v \<Longrightarrow> eps \<le> eps' \<Longrightarrow> close_to eps' x v"
proof -
  assume a: "close_to eps x v" and b: "eps \<le> eps'"
  have "eps * \<bar>v\<bar> \<le> eps' * \<bar>v\<bar>"
    using b by (intro mult_right_mono) simp_all
  with a show ?thesis
    by (simp add: close_to_def)
qed

lemma close_to_refl: "0 \<le> eps \<Longrightarrow> close_to eps x x"
  by (simp add: close_to_def)

lemma close_to_upper:
  assumes "close_to eps x v"
  shows "\<bar>x\<bar> \<le> (1 + eps) * \<bar>v\<bar>"
proof -
  have "\<bar>x\<bar> \<le> \<bar>x - v\<bar> + \<bar>v\<bar>"
    by linarith
  with assms show ?thesis
    by (simp add: close_to_def algebra_simps)
qed

lemma close_to_lower:
  assumes "close_to eps x v"
  shows "(1 - eps) * \<bar>v\<bar> \<le> \<bar>x\<bar>"
proof -
  have "\<bar>v\<bar> \<le> \<bar>x - v\<bar> + \<bar>x\<bar>"
    by linarith
  with assms show ?thesis
    by (simp add: close_to_def algebra_simps)
qed

lemma close_to_trans:
  assumes "close_to e1 x v" and "close_to e2 y x" and "0 \<le> e2"
  shows "close_to (e1 + e2 + e1 * e2) y v"
proof -
  have "\<bar>y - v\<bar> \<le> \<bar>y - x\<bar> + \<bar>x - v\<bar>"
    by linarith
  also have "\<dots> \<le> e2 * \<bar>x\<bar> + e1 * \<bar>v\<bar>"
    using assms(1,2) by (simp add: close_to_def)
  also have "e2 * \<bar>x\<bar> \<le> e2 * ((1 + e1) * \<bar>v\<bar>)"
    using close_to_upper [OF assms(1)] assms(3) by (intro mult_left_mono)
  finally show ?thesis
    by (simp add: close_to_def algebra_simps)
qed

lemma close_to_mult:
  assumes "close_to e1 x v" and "close_to e2 y w" and "0 \<le> e1" and "0 \<le> e2"
  shows "close_to (e1 + e2 + e1 * e2) (x * y) (v * w)"
proof -
  have "x * y - v * w = (x - v) * y + v * (y - w)"
    by (simp add: algebra_simps)
  then have "\<bar>x * y - v * w\<bar> \<le> \<bar>x - v\<bar> * \<bar>y\<bar> + \<bar>v\<bar> * \<bar>y - w\<bar>"
    by (metis abs_mult abs_triangle_ineq)
  also have "\<bar>x - v\<bar> * \<bar>y\<bar> \<le> (e1 * \<bar>v\<bar>) * ((1 + e2) * \<bar>w\<bar>)"
    using assms(1) close_to_upper [OF assms(2)] assms(3)
    by (intro mult_mono) (simp_all add: close_to_def)
  also have "\<bar>v\<bar> * \<bar>y - w\<bar> \<le> \<bar>v\<bar> * (e2 * \<bar>w\<bar>)"
    using assms(2) by (intro mult_left_mono) (simp_all add: close_to_def)
  finally show ?thesis
    by (simp add: close_to_def abs_mult algebra_simps)
qed

lemma close_to_inverse:
  assumes "close_to e y w" and "0 \<le> e" and "e \<le> 1 / 4" and "w \<noteq> 0"
  shows "close_to (4 * e / 3) (1 / y) (1 / w)"
proof -
  have wpos: "0 < \<bar>w\<bar>"
    using assms(4) by simp
  have "(3 / 4) * \<bar>w\<bar> \<le> (1 - e) * \<bar>w\<bar>"
    using assms(3) by (intro mult_right_mono) simp_all
  with close_to_lower [OF assms(1)] have lower: "(3 / 4) * \<bar>w\<bar> \<le> \<bar>y\<bar>"
    by linarith
  have ypos: "0 < \<bar>y\<bar>"
    using lower wpos by linarith
  then have ynz: "y \<noteq> 0"
    by simp
  have "1 / y - 1 / w = (w - y) / (y * w)"
    using ynz assms(4) by (simp add: diff_divide_eq_iff divide_simps)
  then have "\<bar>1 / y - 1 / w\<bar> = \<bar>w - y\<bar> / (\<bar>y\<bar> * \<bar>w\<bar>)"
    by (simp only: abs_divide abs_mult)
  also have "\<bar>w - y\<bar> = \<bar>y - w\<bar>"
    by (rule abs_minus_commute)
  also have "\<bar>y - w\<bar> / (\<bar>y\<bar> * \<bar>w\<bar>) \<le> (e * \<bar>w\<bar>) / (\<bar>y\<bar> * \<bar>w\<bar>)"
  proof (rule divide_right_mono)
    show "\<bar>y - w\<bar> \<le> e * \<bar>w\<bar>"
      using assms(1) by (simp only: close_to_def)
    show "0 \<le> \<bar>y\<bar> * \<bar>w\<bar>"
      by simp
  qed
  also have "(e * \<bar>w\<bar>) / (\<bar>y\<bar> * \<bar>w\<bar>) = e / \<bar>y\<bar>"
    using assms(4) by simp
  also have "e / \<bar>y\<bar> \<le> e / ((3 / 4) * \<bar>w\<bar>)"
    using assms(2) _ _ lower by (rule frac_le) (simp_all add: assms(4))
  also have "e / ((3 / 4) * \<bar>w\<bar>) = (4 * e / 3) * \<bar>1 / w\<bar>"
    by (simp add: abs_divide)
  finally show ?thesis
    by (simp only: close_to_def)
qed

lemma close_to_step:
  assumes "close_to e1 x v" and "close_to e2 y x" and "0 \<le> e2" and "e1 + e2 + e1 * e2 \<le> e"
  shows "close_to e y v"
  using close_to_trans [OF assms(1,2,3)] assms(4) by (rule close_to_weaken)

lemma close_to_mult_left:
  assumes "close_to e x v"
  shows "close_to e (c * x) (c * v)"
proof -
  have "\<bar>c * x - c * v\<bar> = \<bar>c\<bar> * \<bar>x - v\<bar>"
    by (simp only: right_diff_distrib [symmetric] abs_mult)
  also have "\<dots> \<le> \<bar>c\<bar> * (e * \<bar>v\<bar>)"
    using assms by (intro mult_left_mono) (simp_all add: close_to_def)
  finally show ?thesis
    by (simp add: close_to_def abs_mult mult.left_commute)
qed

lemma close_to_mult_right:
  assumes "close_to e x v"
  shows "close_to e (x * c) (v * c)"
  using close_to_mult_left [OF assms, of c] by (simp only: mult.commute)

lemma close_to_divide_right:
  assumes "close_to e x v"
  shows "close_to e (x / c) (v / c)"
  using close_to_mult_right [OF assms, of "1 / c"] by simp

lemma ranged_close_to:
  assumes "ranged k v" and "close_to e x v" and "e \<le> 1 / 2"
  shows "ranged (k + 1) x"
proof -
  have v: "0 < v" "pow2 (- k) \<le> v" "v \<le> pow2 k"
    using assms(1) ranged_pos [OF assms(1)] by (simp_all add: ranged_def)
  have e: "e * \<bar>v\<bar> \<le> (1 / 2) * \<bar>v\<bar>"
    using assms(3) by (intro mult_right_mono) simp_all
  have "\<bar>x - v\<bar> \<le> e * \<bar>v\<bar>"
    using assms(2) by (simp only: close_to_def)
  then have "\<bar>x - v\<bar> \<le> (1 / 2) * \<bar>v\<bar>"
    using e by (rule order_trans)
  then have d: "\<bar>x - v\<bar> \<le> v / 2"
    using v(1) by simp
  have lo: "pow2 (- (k + 1)) = pow2 (- k) / 2"
    using pow2_add [of "- k" "- 1"] by (simp add: pow2_def)
  have hi: "pow2 (k + 1) = 2 * pow2 k"
    using pow2_add [of k 1] by (simp add: pow2_def)
  have "pow2 (- k) / 2 \<le> x" and "x \<le> 2 * pow2 k"
    using d v by linarith+
  then show ?thesis
    by (simp only: ranged_def lo hi simp_thms)
qed

lemma to_flt_ranged:
  assumes "ranged k x" and "k \<le> 1000"
  shows "to_flt x = Fin (rnd x) \<and> close_to (pow2 (- 53)) (rnd x) x \<and> ranged (k + 1) (rnd x)"
proof -
  have x: "0 < x" "pow2 (- k) \<le> x"
    using assms(1) ranged_pos [OF assms(1)] by (simp_all add: ranged_def)
  have "pow2 (- 1022) \<le> pow2 (- k)"
    using assms(2) by (intro pow2_mono) simp
  then have "pow2 (- 1022) \<le> \<bar>x\<bar>"
    using x by simp
  then have "\<bar>rnd x - x\<bar> \<le> pow2 (- 53) * \<bar>x\<bar>"
    by (rule rnd_rel_error)
  then have c: "close_to (pow2 (- 53)) (rnd x) x"
    by (simp only: close_to_def)
  have r: "ranged (k + 1) (rnd x)"
    using assms(1) c by (rule ranged_close_to) (simp add: pow2_def)
  have "pow2 (k + 1) \<le> pow2 1001"
    using assms(2) by (intro pow2_mono) simp
  moreover have "pow2 1001 < (2 ^ 1024 :: real)"
    by (simp add: pow2_def)
  ultimately have "rnd x < 2 ^ 1024"
    using r by (simp add: ranged_def)
  moreover have "0 < rnd x"
    using r by (rule ranged_pos)
  ultimately have "to_flt x = Fin (rnd x)"
    by (simp add: to_flt_def Let_def)
  with c r show ?thesis
    by simp
qed

lemma NP_PI_ranged: "ranged 2 NP_PI"
  by (simp add: ranged_def pow2_def NP_PI_def)

lemma four_ranged: "ranged 2 4"
  by (simp add: ranged_def pow2_def)

subsection \<open>Accuracy of the residence time\<close>

lemma flt_pow_square:
  assumes ID: "ranged 100 ID" and pw: "close_to (pow2 (- 52)) (c_pow ID 2) (ID ^ 2)"
  shows "\<exists>s. flt_pow c_pow ID 2 = Return (Fin s) \<and> close_to (pow2 (- 52)) s (ID ^ 2)
           \<and> ranged 201 s"
proof -
  have pos: "0 < ID"
    using ID by (rule ranged_pos)
  have "ranged (100 + 100) (ID * ID)"
    using ID ID by (rule ranged_mult)
  then have sq: "ranged 200 (ID ^ 2)"
    by (simp add: power2_eq_square)
  have e: "pow2 (- 52) \<le> 1 / 2"
    by (simp add: pow2_def)
  show ?thesis
  proof (cases "ID = 1")
    case True
    then have "flt_pow c_pow ID 2 = Return (Fin 1)"
      by (simp add: flt_pow_def)
    moreover have "close_to (pow2 (- 52)) 1 (ID ^ 2)"
      using True pow2_pos [of "- 52"] by (simp add: close_to_def)
    moreover have "ranged 201 1"
      by (simp add: ranged_def pow2_def)
    ultimately show ?thesis
      by blast
  next
    case False
    have r: "ranged (200 + 1) (c_pow ID 2)"
      using sq pw e by (rule ranged_close_to)
    then have "c_pow ID 2 \<le> pow2 201"
      by (simp add: ranged_def)
    moreover have "pow2 201 < (2 ^ 1024 :: real)"
      by (simp add: pow2_def)
    ultimately have "c_pow ID 2 < 2 ^ 1024"
      by linarith
    then have "flt_pow c_pow ID 2 = Return (Fin (c_pow ID 2))"
      using pos False by (simp add: flt_pow_def)
    with pw r show ?thesis
      by simp
  qed
qed

lemma time_res_tube_accuracy:
  assumes ID: "ranged 100 ID" and L: "ranged 201 L" and Q: "ranged 201 Q"
    and pw: "close_to (pow2 (- 52)) (c_pow ID 2) (ID ^ 2)"
  shows "\<exists>t. time_res_tube c_pow ID L Q = Return (Fin t)
           \<and> close_to (13 / 2 * pow2 (- 53)) t (time_res_tube_exact ID L Q)
           \<and> ranged 611 t"
proof -
  let ?u = "pow2 (- 53)"
  have u: "0 \<le> ?u"
    by (simp add: pow2_def)
  have Qpos: "0 < Q"
    using Q by (rule ranged_pos)
  \<comment> \<open>\<open>LengthTube * np.pi\<close>\<close>
  have "ranged (201 + 2) (L * NP_PI)"
    using L NP_PI_ranged by (rule ranged_mult)
  then have "ranged 203 (L * NP_PI)"
    by simp
  then have "to_flt (L * NP_PI) = Fin (rnd (L * NP_PI))
      \<and> close_to ?u (rnd (L * NP_PI)) (L * NP_PI) \<and> ranged (203 + 1) (rnd (L * NP_PI))"
    by (rule to_flt_ranged) simp
  then obtain a where a: "flt_mul (Fin L) (Fin NP_PI) = Fin a"
      "close_to ?u a (L * NP_PI)" "ranged 204 a"
    by (simp add: flt_mul_Fin)
  \<comment> \<open>\<open>IDTube**2\<close>\<close>
  obtain s where s: "flt_pow c_pow ID 2 = Return (Fin s)"
      "close_to (pow2 (- 52)) s (ID ^ 2)" "ranged 201 s"
    using flt_pow_square [of ID c_pow, OF ID pw] by blast
  \<comment> \<open>\<open>IDTube**2 / 4\<close>\<close>
  have "ranged (201 + 2) (s / 4)"
    using s(3) four_ranged by (rule ranged_divide)
  then have "ranged 203 (s / 4)"
    by simp
  then have "to_flt (s / 4) = Fin (rnd (s / 4))
      \<and> close_to ?u (rnd (s / 4)) (s / 4) \<and> ranged (203 + 1) (rnd (s / 4))"
    by (rule to_flt_ranged) simp
  then obtain s4 where s4: "flt_div (Fin s) (Fin 4) = Return (Fin s4)"
      "close_to ?u s4 (s / 4)" "ranged 204 s4"
    by (simp add: flt_div_Fin)
  have "close_to (pow2 (- 52)) (s / 4) (ID ^ 2 / 4)"
    using s(2) by (rule close_to_divide_right)
  then have s4c: "close_to (31 / 10 * ?u) s4 (ID ^ 2 / 4)"
    using s4(2) u by (rule close_to_step) (simp add: pow2_def)
  \<comment> \<open>\<open>(LengthTube * np.pi) * (IDTube**2 / 4)\<close>\<close>
  have "close_to (?u + 31 / 10 * ?u + ?u * (31 / 10 * ?u)) (a * s4) (L * NP_PI * (ID ^ 2 / 4))"
    using a(2) s4c u by (rule close_to_mult) (simp add: pow2_def)
  then have prod: "close_to (42 / 10 * ?u) (a * s4) (L * NP_PI * (ID ^ 2 / 4))"
    by (rule close_to_weaken) (simp add: pow2_def)
  have "ranged (204 + 204) (a * s4)"
    using a(3) s4(3) by (rule ranged_mult)
  then have "ranged 408 (a * s4)"
    by simp
  then have "to_flt (a * s4) = Fin (rnd (a * s4))
      \<and> close_to ?u (rnd (a * s4)) (a * s4) \<and> ranged (408 + 1) (rnd (a * s4))"
    by (rule to_flt_ranged) simp
  then obtain b where b: "flt_mul (Fin a) (Fin s4) = Fin b"
      "close_to ?u b (a * s4)" "ranged 409 b"
    by (simp add: flt_mul_Fin)
  have bc: "close_to (53 / 10 * ?u) b (L * NP_PI * (ID ^ 2 / 4))"
    using prod b(2) u by (rule close_to_step) (simp add: pow2_def)
  \<comment> \<open>\<open>... / FlowPlant\<close>\<close>
  have "ranged (409 + 201) (b / Q)"
    using b(3) Q by (rule ranged_divide)
  then have "ranged 610 (b / Q)"
    by simp
  then have "to_flt (b / Q) = Fin (rnd (b / Q))
      \<and> close_to ?u (rnd (b / Q)) (b / Q) \<and> ranged (610 + 1) (rnd (b / Q))"
    by (rule to_flt_ranged) simp
  then obtain t where t: "flt_div (Fin b) (Fin Q) = Return (Fin t)"
      "close_to ?u t (b / Q)" "ranged 611 t"
    using Qpos by (simp add: flt_div_Fin)
  have "close_to (53 / 10 * ?u) (b / Q) (L * NP_PI * (ID ^ 2 / 4) / Q)"
    using bc by (rule close_to_divide_right)
  then have "close_to (13 / 2 * ?u) t (L * NP_PI * (ID ^ 2 / 4) / Q)"
    using t(2) u by (rule close_to_step) (simp add: pow2_def)
  then have tc: "close_to (13 / 2 * ?u) t (time_res_tube_exact ID L Q)"
    by (simp only: time_res_tube_exact_def)
  have "time_res_tube c_pow ID L Q = Return (Fin t)"
    by (simp only: time_res_tube_def Let_def a(1) s(1) s4(1) b(1) t(1) rbind.simps)
  with tc t(3) show ?thesis
    by blast
qed

lemma time_res_tube_exact_length:
  "time_res_tube_exact ID L Q = L * (NP_PI * (ID ^ 2 / 4) / Q)"
  by (simp add: time_res_tube_exact_def)

lemma time_res_tube_exact_flow:
  "time_res_tube_exact ID L Q = (L * NP_PI * (ID ^ 2 / 4)) * (1 / Q)"
  by (simp add: time_res_tube_exact_def)

lemma scaled_input:
  assumes "ranged 100 c" and "ranged 100 x"
  shows "flt_mul (Fin c) (Fin x) = Fin (rnd (c * x))
     \<and> close_to (pow2 (- 53)) (rnd (c * x)) (c * x) \<and> ranged 201 (rnd (c * x))"
proof -
  have "ranged (100 + 100) (c * x)"
    using assms by (rule ranged_mult)
  then have "ranged 200 (c * x)"
    by simp
  then have "to_flt (c * x) = Fin (rnd (c * x))
      \<and> close_to (pow2 (- 53)) (rnd (c * x)) (c * x) \<and> ranged (200 + 1) (rnd (c * x))"
    by (rule to_flt_ranged) simp
  then show ?thesis
    by (simp add: flt_mul_Fin)
qed

subsection \<open>Scaling with length and flow\<close>

text \<open>
  Against C9 as stated: with inner diameter 1.0, length 1.0 and flow 3.0,
  \<open>time_res_tube(1.0, 5.0 * 1.0, 3.0)\<close> is the float \<open>5895198126690367 / 2\<^sup>5\<^sup>2\<close>
  (1.3089969389957472) and \<open>5.0 * time_res_tube(1.0, 1.0, 3.0)\<close> is the float
  \<open>5895198126690366 / 2\<^sup>5\<^sup>2\<close> (1.308996938995747): the two differ by one unit in
  the last place. With the base 1.0 the power \<open>IDTube**2\<close> does not reach the C
  library, so the values do not depend on \<open>c_pow\<close>.
\<close>

theorem time_res_tube_length_scaling_counterexample:
  "time_res_tube (\<lambda>x y. x powr y) 1 5 3 = Return (Fin (5895198126690367 / 2 ^ 52))
   \<and> rbind (time_res_tube (\<lambda>x y. x powr y) 1 1 3) (\<lambda>t. Return (flt_mul (Fin 5) t))
       = Return (Fin (5895198126690366 / 2 ^ 52))
   \<and> time_res_tube (\<lambda>x y. x powr y) 1 5 3
       \<noteq> rbind (time_res_tube (\<lambda>x y. x powr y) 1 1 3) (\<lambda>t. Return (flt_mul (Fin 5) t))"
proof -
  have a: "time_res_tube (\<lambda>x y. x powr y) 1 5 3 = Return (Fin (5895198126690367 / 2 ^ 52))"
    by (simp only: time_res_tube_unit_diameter mul_pi_5 mul_quarter_5 div_3_5)
  have b: "rbind (time_res_tube (\<lambda>x y. x powr y) 1 1 3) (\<lambda>t. Return (flt_mul (Fin 5) t))
      = Return (Fin (5895198126690366 / 2 ^ 52))"
    by (simp only: time_res_tube_unit_diameter mul_pi_1 mul_quarter_1 div_3_1 mul_5_result
          rbind.simps)
  have "(5895198126690367 / 2 ^ 52 :: real) \<noteq> 5895198126690366 / 2 ^ 52"
    by simp
  then have "Return (Fin (5895198126690367 / 2 ^ 52)) \<noteq> Return (Fin (5895198126690366 / 2 ^ 52))"
    by (simp only: result.inject flt.inject simp_thms)
  with a b show ?thesis
    by (simp only: simp_thms)
qed

text \<open>
  C9, amended. Let the inner diameter, the length, the flow and the scaling factor
  \<open>c\<close> be floats between \<open>2\<^sup>-\<^sup>1\<^sup>0\<^sup>0\<close> and \<open>2\<^sup>1\<^sup>0\<^sup>0\<close>, and let the C library's
  \<open>pow\<close> give the square of the diameter with a relative error of at most
  \<open>2\<^sup>-\<^sup>5\<^sup>2\<close>. Then \<open>time_res_tube\<close> returns a finite float \<open>t\<close>, and up to a
  relative error of \<open>2\<^sup>-\<^sup>5\<^sup>0\<close> (not exactly):

  \<^item> \<open>t\<close> is the tube volume divided by the flow,
    \<open>LengthTube * np.pi * (IDTube\<^sup>2 / 4) / FlowPlant\<close> in exact arithmetic;
  \<^item> \<open>time_res_tube(ID, c * L, Q)\<close> and \<open>c * t\<close> are both \<open>c\<close> times that
    quotient;
  \<^item> \<open>time_res_tube(ID, L, c * Q)\<close> and \<open>t / c\<close> are both that quotient divided by
    \<open>c\<close>.

  The products \<open>c * L\<close>, \<open>c * Q\<close>, \<open>c * t\<close> and the quotient \<open>t / c\<close>
  are the floats Python computes.
\<close>

theorem time_res_tube_scaling_up_to_rounding:
  assumes ID: "ranged 100 ID" and L: "ranged 100 L" and Q: "ranged 100 Q" and c: "ranged 100 c"
    and pw: "close_to (pow2 (- 52)) (c_pow ID 2) (ID ^ 2)"
  shows "\<exists>t t1 t2.
      time_res_tube c_pow ID L Q = Return (Fin t)
    \<and> close_to (pow2 (- 50)) t (time_res_tube_exact ID L Q)
    \<and> flt_mul (Fin c) (Fin L) = Fin (rnd (c * L))
    \<and> time_res_tube c_pow ID (rnd (c * L)) Q = Return (Fin t1)
    \<and> close_to (pow2 (- 50)) t1 (c * time_res_tube_exact ID L Q)
    \<and> flt_mul (Fin c) (Fin t) = Fin (rnd (c * t))
    \<and> close_to (pow2 (- 50)) (rnd (c * t)) (c * time_res_tube_exact ID L Q)
    \<and> flt_mul (Fin c) (Fin Q) = Fin (rnd (c * Q))
    \<and> time_res_tube c_pow ID L (rnd (c * Q)) = Return (Fin t2)
    \<and> close_to (pow2 (- 50)) t2 (time_res_tube_exact ID L Q / c)
    \<and> flt_div (Fin t) (Fin c) = Return (Fin (rnd (t / c)))
    \<and> close_to (pow2 (- 50)) (rnd (t / c)) (time_res_tube_exact ID L Q / c)"
proof -
  let ?u = "pow2 (- 53)"
  let ?V = "time_res_tube_exact ID L Q"
  have u: "0 \<le> ?u"
    by (simp add: pow2_def)
  have u13: "0 \<le> 13 / 2 * ?u"
    by (simp add: pow2_def)
  have cpos: "0 < c"
    using c by (rule ranged_pos)
  have Qpos: "0 < Q"
    using Q by (rule ranged_pos)
  have L': "ranged 201 L"
    using L by (rule ranged_mono) simp
  have Q': "ranged 201 Q"
    using Q by (rule ranged_mono) simp
  \<comment> \<open>the call itself\<close>
  obtain t where t: "time_res_tube c_pow ID L Q = Return (Fin t)"
      "close_to (13 / 2 * ?u) t ?V" "ranged 611 t"
    using time_res_tube_accuracy [of ID L Q c_pow, OF ID L' Q' pw] by blast
  have t50: "close_to (pow2 (- 50)) t ?V"
    using t(2) by (rule close_to_weaken) (simp add: pow2_def)
  \<comment> \<open>the length scaled\<close>
  have cL: "flt_mul (Fin c) (Fin L) = Fin (rnd (c * L))"
      "close_to ?u (rnd (c * L)) (c * L)" "ranged 201 (rnd (c * L))"
    using scaled_input [OF c L] by simp_all
  obtain t1 where t1: "time_res_tube c_pow ID (rnd (c * L)) Q = Return (Fin t1)"
      "close_to (13 / 2 * ?u) t1 (time_res_tube_exact ID (rnd (c * L)) Q)"
    using time_res_tube_accuracy [of ID "rnd (c * L)" Q c_pow, OF ID cL(3) Q' pw] by blast
  have "close_to ?u (rnd (c * L) * (NP_PI * (ID ^ 2 / 4) / Q)) (c * L * (NP_PI * (ID ^ 2 / 4) / Q))"
    using cL(2) by (rule close_to_mult_right)
  then have "close_to ?u (time_res_tube_exact ID (rnd (c * L)) Q) (c * ?V)"
    by (simp only: time_res_tube_exact_length mult.assoc)
  then have t1c: "close_to (pow2 (- 50)) t1 (c * ?V)"
    using t1(2) u13 by (rule close_to_step) (simp add: pow2_def)
  \<comment> \<open>the result scaled\<close>
  have "ranged (100 + 611) (c * t)"
    using c t(3) by (rule ranged_mult)
  then have "ranged 711 (c * t)"
    by simp
  then have "to_flt (c * t) = Fin (rnd (c * t))
      \<and> close_to ?u (rnd (c * t)) (c * t) \<and> ranged (711 + 1) (rnd (c * t))"
    by (rule to_flt_ranged) simp
  then have ct: "flt_mul (Fin c) (Fin t) = Fin (rnd (c * t))" "close_to ?u (rnd (c * t)) (c * t)"
    by (simp_all add: flt_mul_Fin)
  have "close_to (13 / 2 * ?u) (c * t) (c * ?V)"
    using t(2) by (rule close_to_mult_left)
  then have ctc: "close_to (pow2 (- 50)) (rnd (c * t)) (c * ?V)"
    using ct(2) u by (rule close_to_step) (simp add: pow2_def)
  \<comment> \<open>the flow scaled\<close>
  have cQ: "flt_mul (Fin c) (Fin Q) = Fin (rnd (c * Q))"
      "close_to ?u (rnd (c * Q)) (c * Q)" "ranged 201 (rnd (c * Q))"
    using scaled_input [OF c Q] by simp_all
  obtain t2 where t2: "time_res_tube c_pow ID L (rnd (c * Q)) = Return (Fin t2)"
      "close_to (13 / 2 * ?u) t2 (time_res_tube_exact ID L (rnd (c * Q)))"
    using time_res_tube_accuracy [of ID L "rnd (c * Q)" c_pow, OF ID L' cQ(3) pw] by blast
  have nz: "c * Q \<noteq> 0"
    using cpos Qpos by simp
  have u4: "?u \<le> 1 / 4"
    by (simp add: pow2_def)
  have "close_to (4 * ?u / 3) (1 / rnd (c * Q)) (1 / (c * Q))"
    using cQ(2) u u4 nz by (rule close_to_inverse)
  then have "close_to (4 * ?u / 3) ((L * NP_PI * (ID ^ 2 / 4)) * (1 / rnd (c * Q)))
      ((L * NP_PI * (ID ^ 2 / 4)) * (1 / (c * Q)))"
    by (rule close_to_mult_left)
  moreover have "(L * NP_PI * (ID ^ 2 / 4)) * (1 / (c * Q)) = ?V / c"
    by (simp add: time_res_tube_exact_def)
  ultimately have "close_to (4 * ?u / 3) (time_res_tube_exact ID L (rnd (c * Q))) (?V / c)"
    by (simp only: time_res_tube_exact_flow)
  then have t2c: "close_to (pow2 (- 50)) t2 (?V / c)"
    using t2(2) u13 by (rule close_to_step) (simp add: pow2_def)
  \<comment> \<open>the result divided\<close>
  have "ranged (611 + 100) (t / c)"
    using t(3) c by (rule ranged_divide)
  then have "ranged 711 (t / c)"
    by simp
  then have "to_flt (t / c) = Fin (rnd (t / c))
      \<and> close_to ?u (rnd (t / c)) (t / c) \<and> ranged (711 + 1) (rnd (t / c))"
    by (rule to_flt_ranged) simp
  then have tc: "flt_div (Fin t) (Fin c) = Return (Fin (rnd (t / c)))"
      "close_to ?u (rnd (t / c)) (t / c)"
    using cpos by (simp_all add: flt_div_Fin)
  have "close_to (13 / 2 * ?u) (t / c) (?V / c)"
    using t(2) by (rule close_to_divide_right)
  then have tcc: "close_to (pow2 (- 50)) (rnd (t / c)) (?V / c)"
    using tc(2) u by (rule close_to_step) (simp add: pow2_def)
  from t(1) t50 cL(1) t1(1) t1c ct(1) ctc cQ(1) t2(1) t2c tc(1) tcc show ?thesis
    by blast
qed

text \<open>
  The theorem at inner diameter 0.375, length 5, flow 3 and factor 5, with a correctly
  rounded \<open>pow\<close>.
\<close>

theorem time_res_tube_scaling_up_to_rounding_witness:
  "ranged 100 (3 / 8) \<and> ranged 100 5 \<and> ranged 100 3
   \<and> close_to (pow2 (- 52)) (rnd ((3 / 8) powr 2)) ((3 / 8) ^ 2)
   \<and> (\<exists>t t1 t2.
      time_res_tube (\<lambda>x y. rnd (x powr y)) (3 / 8) 5 3 = Return (Fin t)
    \<and> close_to (pow2 (- 50)) t (time_res_tube_exact (3 / 8) 5 3)
    \<and> flt_mul (Fin 5) (Fin 5) = Fin (rnd (5 * 5))
    \<and> time_res_tube (\<lambda>x y. rnd (x powr y)) (3 / 8) (rnd (5 * 5)) 3 = Return (Fin t1)
    \<and> close_to (pow2 (- 50)) t1 (5 * time_res_tube_exact (3 / 8) 5 3)
    \<and> flt_mul (Fin 5) (Fin t) = Fin (rnd (5 * t))
    \<and> close_to (pow2 (- 50)) (rnd (5 * t)) (5 * time_res_tube_exact (3 / 8) 5 3)
    \<and> flt_mul (Fin 5) (Fin 3) = Fin (rnd (5 * 3))
    \<and> time_res_tube (\<lambda>x y. rnd (x powr y)) (3 / 8) 5 (rnd (5 * 3)) = Return (Fin t2)
    \<and> close_to (pow2 (- 50)) t2 (time_res_tube_exact (3 / 8) 5 3 / 5)
    \<and> flt_div (Fin t) (Fin 5) = Return (Fin (rnd (t / 5)))
    \<and> close_to (pow2 (- 50)) (rnd (t / 5)) (time_res_tube_exact (3 / 8) 5 3 / 5))"
proof -
  have r1: "ranged 100 (3 / 8)"
    by (simp add: ranged_def pow2_def)
  have r2: "ranged 100 5"
    by (simp add: ranged_def pow2_def)
  have r3: "ranged 100 3"
    by (simp add: ranged_def pow2_def)
  have sq: "(3 / 8 :: real) powr 2 = 9 / 64" "(3 / 8 :: real) ^ 2 = 9 / 64"
    by (simp_all add: power2_eq_square)
  have "pow2 (- 1022) \<le> \<bar>9 / 64 :: real\<bar>"
    by (simp add: pow2_def)
  then have "\<bar>rnd (9 / 64) - 9 / 64\<bar> \<le> pow2 (- 53) * \<bar>9 / 64 :: real\<bar>"
    by (rule rnd_rel_error)
  moreover have "pow2 (- 53) * \<bar>9 / 64 :: real\<bar> \<le> pow2 (- 52) * \<bar>9 / 64 :: real\<bar>"
    by (simp add: pow2_def)
  ultimately have "close_to (pow2 (- 52)) (rnd (9 / 64)) (9 / 64)"
    by (simp only: close_to_def)
  then have pw: "close_to (pow2 (- 52)) (rnd ((3 / 8) powr 2)) ((3 / 8) ^ 2)"
    by (simp only: sq)
  from time_res_tube_scaling_up_to_rounding
    [where ID = "3 / 8" and L = 5 and Q = 3 and c = 5 and c_pow = "\<lambda>x y. rnd (x powr y)",
     OF r1 r2 r3 r2 pw] r1 r2 r3 pw
  show ?thesis
    by (simp only: simp_thms)
qed

end
